theory Spec2Isabelle
  imports Main "HOL-Library.Word" "HOL-Library.Signed_Division"
begin

section \<open>Process table (project02/proc.c)\<close>

text \<open>
  The process table is a fixed array of PCBs together with the table \<open>numProc\<close> of six
  counters. A \<open>struct proc *\<close> is modelled as a slot index into the array, the null
  pointer as \<open>None\<close>; a \<open>void *\<close> sleep channel is an address, \<open>0\<close> being null. The
  C \<open>int\<close> fields are integers; where the timer interrupt computes with them, the
  result is wrapped to 32 bits (\<open>int32\<close> below).
  The number of slots (\<open>NPROC\<close>) is the length of the list. Locks are not modelled: each
  function below is the body executed under \<open>ptable.lock\<close>.
\<close>

datatype procstate = UNUSED | EMBRYO | SLEEPING | RUNNABLE | RUNNING | ZOMBIE

record proc =
  state :: procstate
  pid :: int
  parent :: "nat option"
  chan :: nat
  killed :: int
  level :: int
  tick :: int
  priority :: int
  monopolize :: int

record ptable =
  procs :: "proc list"
  numProc :: "int list"

datatype kerr = NullDeref | OutOfBounds | Panic string

text \<open>The per-level count the table \<open>numProc\<close> is meant to cache.\<close>

definition eligible :: "int \<Rightarrow> proc \<Rightarrow> bool" where
  "eligible L p = (state p = RUNNABLE \<and> level p = L \<and> monopolize p = 0)"

definition count_eligible :: "int \<Rightarrow> proc list \<Rightarrow> int" where
  "count_eligible L ps = int (length (filter (eligible L) ps))"

definition count_monopolized :: "proc list \<Rightarrow> int" where
  "count_monopolized ps = int (length (filter (\<lambda>p. monopolize p = 1) ps))"

definition numProc_inv :: "ptable \<Rightarrow> bool" where
  "numProc_inv pt =
     (length (numProc pt) = 6 \<and>
      numProc pt ! 0 = count_eligible 0 (procs pt) \<and>
      numProc pt ! 1 = count_eligible 1 (procs pt) \<and>
      numProc pt ! 2 = count_eligible 2 (procs pt) \<and>
      numProc pt ! 3 = count_eligible 3 (procs pt) \<and>
      numProc pt ! 4 = count_monopolized (procs pt))"

subsection \<open>wakeup1, kill, setpriority\<close>

text \<open>\<open>wakeup1\<close>: every SLEEPING slot on the channel becomes RUNNABLE; nothing else is
  written.\<close>

definition wakeup1_slot :: "nat \<Rightarrow> proc \<Rightarrow> proc" where
  "wakeup1_slot c p = (if state p = SLEEPING \<and> chan p = c then p\<lparr>state := RUNNABLE\<rparr> else p)"

definition wakeup1 :: "nat \<Rightarrow> ptable \<Rightarrow> ptable" where
  "wakeup1 c pt = pt\<lparr>procs := map (wakeup1_slot c) (procs pt)\<rparr>"

definition wakeup :: "nat \<Rightarrow> ptable \<Rightarrow> ptable" where
  "wakeup c pt = wakeup1 c pt"

text \<open>\<open>kill\<close>: the loop stops at the first slot whose pid matches.\<close>

fun kill_loop :: "int \<Rightarrow> proc list \<Rightarrow> int \<times> proc list" where
  "kill_loop k [] = (- 1, [])"
| "kill_loop k (p # ps) =
     (if pid p = k
      then (0, (let p1 = p\<lparr>killed := 1\<rparr>
                in if state p1 = SLEEPING then p1\<lparr>state := RUNNABLE\<rparr> else p1) # ps)
      else (let (r, ps') = kill_loop k ps in (r, p # ps')))"

definition kill :: "int \<Rightarrow> ptable \<Rightarrow> int \<times> ptable" where
  "kill k pt = (let (r, ps') = kill_loop k (procs pt) in (r, pt\<lparr>procs := ps'\<rparr>))"

fun setpriority_loop :: "int \<Rightarrow> int \<Rightarrow> proc list \<Rightarrow> int \<times> proc list" where
  "setpriority_loop k pr [] = (- 1, [])"
| "setpriority_loop k pr (p # ps) =
     (if k = pid p
      then (0, p\<lparr>priority := pr\<rparr> # ps)
      else (let (r, ps') = setpriority_loop k pr ps in (r, p # ps')))"

definition setpriority :: "int \<Rightarrow> int \<Rightarrow> ptable \<Rightarrow> int \<times> ptable" where
  "setpriority k pr pt =
     (if pr < 0 \<or> pr > 10 then (- 2, pt)
      else (let (r, ps') = setpriority_loop k pr (procs pt) in (r, pt\<lparr>procs := ps'\<rparr>)))"

subsection \<open>wait: one pass over the table\<close>

text \<open>
  One execution of the scan inside \<open>wait\<close>'s endless loop, for the caller in slot
  \<open>cur\<close>. The pass either reaps the first ZOMBIE child (clearing its fields and returning
  its pid), or ends with \<open>havekids\<close>. Releasing the kernel stack and the address space
  concerns other modules and is left out.
\<close>

definition reap :: "proc \<Rightarrow> proc" where
  "reap p = p\<lparr>pid := 0, parent := None, killed := 0, state := UNUSED\<rparr>"

fun wait_scan :: "nat \<Rightarrow> bool \<Rightarrow> proc list \<Rightarrow> (int option \<times> bool) \<times> proc list" where
  "wait_scan cur havekids [] = ((None, havekids), [])"
| "wait_scan cur havekids (p # ps) =
     (if parent p \<noteq> Some cur
      then (let (r, ps') = wait_scan cur havekids ps in (r, p # ps'))
      else if state p = ZOMBIE then ((Some (pid p), True), reap p # ps)
      else (let (r, ps') = wait_scan cur True ps in (r, p # ps')))"

datatype wait_result = Reaped int | NoKids | MustSleep

definition wait_pass :: "nat \<Rightarrow> ptable \<Rightarrow> wait_result \<times> ptable" where
  "wait_pass cur pt =
     (let ((r, havekids), ps') = wait_scan cur False (procs pt)
      in case r of
           Some k \<Rightarrow> (Reaped k, pt\<lparr>procs := ps'\<rparr>)
         | None \<Rightarrow>
             if \<not> havekids \<or> killed (procs pt ! cur) \<noteq> 0 then (NoKids, pt)
             else (MustSleep, pt))"

subsection \<open>Writes to numProc\<close>

text \<open>
  \<open>ptable.numProc[L] += d\<close> for a level read from a PCB. The array has six entries; an
  index outside it is a write outside the array, reported as \<open>OutOfBounds\<close>.
\<close>

definition numProc_add :: "int \<Rightarrow> int \<Rightarrow> int list \<Rightarrow> kerr + int list" where
  "numProc_add L d np =
     (if 0 \<le> L \<and> nat L < length np then Inr (np[nat L := np ! nat L + d])
      else Inl OutOfBounds)"

subsection \<open>priority_boosting\<close>

definition boost_count :: "proc \<Rightarrow> int list \<Rightarrow> int list" where
  "boost_count p np =
     (if state p = RUNNABLE \<and> level p = 0 \<and> monopolize p = 0
      then np[0 := np ! 0 + 1]
      else if state p = RUNNABLE \<and> (level p = 1 \<or> level p = 2 \<or> level p = 3)
              \<and> monopolize p = 0
      then (let np1 = np[0 := np ! 0 + 1]
            in np1[nat (level p) := np1 ! nat (level p) - 1])
      else np)"

fun boost_loop :: "proc list \<Rightarrow> int list \<Rightarrow> proc list \<times> int list" where
  "boost_loop [] np = ([], np)"
| "boost_loop (p # ps) np =
     (let (ps', np') = boost_loop ps (boost_count p np)
      in (p\<lparr>level := 0, tick := 0\<rparr> # ps', np'))"

definition priority_boosting :: "ptable \<Rightarrow> ptable" where
  "priority_boosting pt =
     (let (ps', np') = boost_loop (procs pt) ((numProc pt)[0 := 0])
      in pt\<lparr>procs := ps', numProc := np'\<rparr>)"

subsection \<open>setmonopoly, unmonopolize, monopolize, yield\<close>

text \<open>
  The per-CPU structure is reduced to its \<open>proc\<close> pointer, which \<open>myproc\<close> reads.
  Dereferencing a null \<open>struct proc *\<close> is the error \<open>NullDeref\<close>.
\<close>

record cpu =
  cproc :: "nat option"

definition myproc :: "cpu \<Rightarrow> nat option" where
  "myproc c = cproc c"



definition unmonopolize :: "cpu \<Rightarrow> ptable \<Rightarrow> kerr + ptable" where
  "unmonopolize c pt =
     (case myproc c of
        None \<Rightarrow> Inl NullDeref
      | Some i \<Rightarrow>
          (let p = procs pt ! i in
           if monopolize p = 1 then
             (let ps1 = (procs pt)[i := p\<lparr>state := RUNNABLE\<rparr>];
                  np = numProc pt;
                  np' = (if level p = 0 then (let n1 = np[0 := np ! 0 + 1] in n1[4 := n1 ! 4 - 1])
                         else if level p = 1 then (let n1 = np[1 := np ! 1 + 1] in n1[4 := n1 ! 4 - 1])
                         else if level p = 2 then (let n1 = np[2 := np ! 2 + 1] in n1[4 := n1 ! 4 - 1])
                         else if level p = 3 then (let n1 = np[3 := np ! 3 + 1] in n1[4 := n1 ! 4 - 1])
                         else np)
              in Inr (pt\<lparr>procs := ps1, numProc := np'\<rparr>))
           else Inr pt))"

text \<open>
  \<open>monopolize\<close> (named \<open>monopolize_fn\<close> here, the record field has the name). The
  argument \<open>swtch\<close> stands for the hand-off: it maps the slot that is switched to and the
  table at that moment to the table as it is when control comes back to the scheduler.
\<close>

definition monopolize_fn ::
  "(nat \<Rightarrow> ptable \<Rightarrow> ptable) \<Rightarrow> cpu \<Rightarrow> ptable \<Rightarrow> kerr + (cpu \<times> ptable)" where
  "monopolize_fn swtch c0 pt =
     (let c = c0\<lparr>cproc := None\<rparr> in
      case myproc c of
        None \<Rightarrow> Inl NullDeref
      | Some q \<Rightarrow>
          if monopolize (procs pt ! q) = 1 then
            (let p = q;
                 c1 = c\<lparr>cproc := Some p\<rparr>;
                 pt1 = pt\<lparr>procs := (procs pt)[p := (procs pt ! p)\<lparr>state := RUNNABLE\<rparr>]\<rparr>;
                 pt2 = swtch p pt1;
                 c2 = c1\<lparr>cproc := None\<rparr>
             in case unmonopolize c2 pt2 of
                  Inl e \<Rightarrow> Inl e
                | Inr pt3 \<Rightarrow> Inr (c2, pt3))
          else Inr (c, pt))"

text \<open>\<open>yield\<close>, up to the call of \<open>sched\<close>.\<close>

definition yield :: "cpu \<Rightarrow> ptable \<Rightarrow> kerr + ptable" where
  "yield c pt =
     (case myproc c of
        None \<Rightarrow> Inl NullDeref
      | Some i \<Rightarrow>
          (let pt1 = pt\<lparr>procs := (procs pt)[i := (procs pt ! i)\<lparr>state := RUNNABLE\<rparr>]\<rparr>
           in case numProc_add (level (procs pt1 ! i)) 1 (numProc pt1) of
                Inl e \<Rightarrow> Inl e
              | Inr np' \<Rightarrow> Inr (pt1\<lparr>numProc := np'\<rparr>)))"

subsection \<open>scheduler: the body of the scan for one slot\<close>

text \<open>
  The inner scan of the level-3 branch: \<open>p\<close> starts as the slot the outer loop stands
  on and is replaced by \<open>tmp\<close> as the source does.
\<close>

definition l3_step :: "proc list \<Rightarrow> nat \<Rightarrow> nat \<Rightarrow> nat" where
  "l3_step ps p tmp =
     (if state (ps ! tmp) = RUNNABLE \<and> level (ps ! tmp) = 3
         \<and> priority (ps ! tmp) > priority (ps ! p) then tmp
      else if state (ps ! tmp) = RUNNABLE \<and> level (ps ! tmp) = 3
              \<and> priority (ps ! tmp) = priority (ps ! p)
      then (if pid (ps ! tmp) < pid (ps ! p) then tmp else p)
      else p)"

definition l3_select :: "proc list \<Rightarrow> nat \<Rightarrow> nat" where
  "l3_select ps p = foldl (l3_step ps) p [0..<length ps]"

text \<open>\<open>c->proc = p; p->state = RUNNING; ptable.numProc[k]--\<close>: the state at the hand-off.\<close>

definition dispatch :: "nat \<Rightarrow> nat \<Rightarrow> cpu \<Rightarrow> ptable \<Rightarrow> cpu \<times> ptable" where
  "dispatch p k c pt =
     (c\<lparr>cproc := Some p\<rparr>,
      pt\<lparr>procs := (procs pt)[p := (procs pt ! p)\<lparr>state := RUNNING\<rparr>],
         numProc := (numProc pt)[k := numProc pt ! k - 1]\<rparr>)"

datatype branch = MoQ | L0 | L1 | L2 | L3

definition scheduler_slot ::
  "(nat \<Rightarrow> ptable \<Rightarrow> ptable) \<Rightarrow> nat \<Rightarrow> cpu \<Rightarrow> ptable \<Rightarrow> kerr + (branch option \<times> cpu \<times> ptable)" where
  "scheduler_slot swtch i c pt =
     (let p = procs pt ! i; np = numProc pt in
      if state p \<noteq> RUNNABLE then Inr (None, c, pt)
      else if monopolize p = 1 then
        (case monopolize_fn swtch c pt of
           Inl e \<Rightarrow> Inl e
         | Inr (c', pt') \<Rightarrow> Inr (Some MoQ, c', pt'))
      else if np ! 0 \<noteq> 0 \<and> level p = 0 \<and> monopolize p = 0
      then Inr (Some L0, dispatch i 0 c pt)
      else if np ! 0 = 0 \<and> np ! 1 > 0 \<and> level p = 1 \<and> monopolize p = 0
      then Inr (Some L1, dispatch i 1 c pt)
      else if np ! 0 = 0 \<and> np ! 1 = 0 \<and> np ! 2 > 0 \<and> level p = 2 \<and> monopolize p = 0
      then Inr (Some L2, dispatch i 2 c pt)
      else Inr (Some L3, dispatch (l3_select (procs pt) i) 3 c pt))"

section \<open>Timer interrupt (project02/trap.c)\<close>

text \<open>
  The case \<open>T_IRQ0 + IRQ_TIMER\<close> of \<open>trap\<close> on the CPU with \<open>cpuid() == 0\<close>, up to
  \<open>lapiceoi\<close>. \<open>ticks\<close> is a \<open>uint\<close>. \<open>tchan\<close> is the address \<open>&ticks\<close> used as
  sleep channel. The C remainder truncates towards zero (\<open>smod\<close>). \<open>p->tick++\<close>,
  \<open>2 * p->level + 2\<close> and \<open>p->priority--\<close> are computed on 32-bit \<open>int\<close>s: a result
  outside \<open>-2^31 .. 2^31 - 1\<close> wraps around, as the machine instruction does.
\<close>

definition int32 :: "int \<Rightarrow> int" where
  "int32 x = (x + 2147483648) mod 4294967296 - 2147483648"

record kernel =
  ticks :: "32 word"
  ptab :: ptable

definition aging :: "proc \<Rightarrow> proc" where
  "aging p =
     (if state p = RUNNING then
        (if monopolize p = 1 then p\<lparr>tick := 0\<rparr>
         else
           (let p1 = p\<lparr>tick := int32 (tick p + 1)\<rparr> in
            if tick p1 \<ge> int32 (int32 (2 * level p1) + 2) then
              (if level p1 = 0 then
                 (if pid p1 smod 2 = 1 then p1\<lparr>level := 1, tick := 0\<rparr>
                  else p1\<lparr>level := 2, tick := 0\<rparr>)
               else if level p1 = 1 \<or> level p1 = 2 then p1\<lparr>level := 3, tick := 0\<rparr>
               else if level p1 = 3 then
                 (let p2 = (if priority p1 \<noteq> 0
                            then p1\<lparr>priority := int32 (priority p1 - 1)\<rparr> else p1)
                  in p2\<lparr>tick := 0\<rparr>)
               else p1)
            else p1))
      else p)"

definition trap_timer :: "nat \<Rightarrow> cpu \<Rightarrow> kernel \<Rightarrow> kernel" where
  "trap_timer tchan c k =
     (let t1 = ticks k + 1;
          boosting = (t1 = 100);
          t2 = (if boosting then 0 else t1);
          pt1 = wakeup tchan (ptab k)
      in if boosting then \<lparr>ticks = t2, ptab = priority_boosting pt1\<rparr>
         else (case myproc c of
                 None \<Rightarrow> \<lparr>ticks = t2, ptab = pt1\<rparr>
               | Some i \<Rightarrow>
                   \<lparr>ticks = t2,
                    ptab = pt1\<lparr>procs := (procs pt1)[i := aging (procs pt1 ! i)]\<rparr>\<rparr>))"

section \<open>Physical page allocator (project04/kalloc.c)\<close>

text \<open>
  Addresses are 32-bit words. The constants \<open>PGSIZE\<close>, \<open>KERNBASE\<close>, \<open>PHYSTOP\<close> and
  the linker symbol \<open>end\<close> come from headers and the linker script; they are the fields
  of a parameter \<open>layout\<close>. The free list, a chain of \<open>struct run\<close> through the free pages,
  is the list of the page addresses on it, head first; the link \<open>r->next\<close> is the head of
  the rest, and \<open>kfree\<close> also writes it into \<open>memory\<close>. The list is the chain in memory
  as long as no page is pushed while it is on the list; a page pushed twice stands in the
  list twice, where the chain in memory runs in a circle. \<open>ref_cnt\<close> is an array of
  \<open>PAGE_COUNT\<close> counters, indexed by the frame number; an index outside it is
  \<open>OutOfBounds\<close>. \<open>memory\<close> gives the byte at each kernel virtual address.
\<close>

record layout =
  PGSIZE :: "32 word"
  KERNBASE :: "32 word"
  PHYSTOP :: "32 word"
  kend :: "32 word"

record kmem =
  freelist :: "32 word list"
  ref_cnt :: "nat \<Rightarrow> int"
  num_freePage :: int
  memory :: "32 word \<Rightarrow> 8 word"


definition PAGE_COUNT :: "layout \<Rightarrow> nat" where
  "PAGE_COUNT L = unat (PHYSTOP L div PGSIZE L)"

definition PAGE_INDEX :: "layout \<Rightarrow> 32 word \<Rightarrow> nat" where
  "PAGE_INDEX L pa = unat (pa div PGSIZE L)"








definition get_refc :: "layout \<Rightarrow> 32 word \<Rightarrow> kmem \<Rightarrow> kerr + int" where
  "get_refc L pa k =
     (let index = PAGE_INDEX L pa in
      if \<not> index < PAGE_COUNT L then Inl OutOfBounds
      else Inr (ref_cnt k index))"

definition countfp :: "kmem \<Rightarrow> int" where
  "countfp k = num_freePage k"

section \<open>Specification predicates\<close>














section \<open>Concrete states\<close>

text \<open>
  A slot as static storage initialises it, and a table of 64 slots whose first slots
  are given and whose counters are all zero, as at boot.
\<close>

definition zero_proc :: proc where
  "zero_proc = \<lparr>state = UNUSED, pid = 0, parent = None, chan = 0, killed = 0,
                 level = 0, tick = 0, priority = 0, monopolize = 0\<rparr>"

definition boot_table :: "proc list \<Rightarrow> ptable" where
  "boot_table ps =
     \<lparr>procs = ps @ replicate (64 - length ps) zero_proc, numProc = replicate 6 0\<rparr>"

text \<open>One process asleep on channel 7.\<close>

definition sleeper_table :: ptable where
  "sleeper_table = boot_table [zero_proc\<lparr>state := SLEEPING, pid := 1, chan := 7\<rparr>]"

text \<open>A parent in slot 0 with a ZOMBIE child in slot 1.\<close>

definition zombie_table :: ptable where
  "zombie_table =
     boot_table [zero_proc\<lparr>state := RUNNING, pid := 1\<rparr>,
                 zero_proc\<lparr>state := ZOMBIE, pid := 2, parent := Some 0\<rparr>]"

definition reaped_table :: ptable where
  "reaped_table = snd (wait_pass 0 zombie_table)"

text \<open>A process with an even pid at level 0 that has run for one tick.\<close>

definition aging_kernel :: kernel where
  "aging_kernel =
     \<lparr>ticks = 5,
      ptab = boot_table [zero_proc\<lparr>state := RUNNING, pid := 2, tick := 1\<rparr>]\<rparr>"

text \<open>The same process with its tick counter at the greatest 32-bit value.\<close>

definition overflow_kernel :: kernel where
  "overflow_kernel =
     \<lparr>ticks = 5,
      ptab = boot_table [zero_proc\<lparr>state := RUNNING, pid := 2, tick := 2147483647\<rparr>]\<rparr>"




definition mono_table :: ptable where
  "mono_table =
     (boot_table [zero_proc\<lparr>state := SLEEPING, pid := 1, chan := 3\<rparr>,
                  zero_proc\<lparr>state := RUNNABLE, pid := 2, monopolize := 1\<rparr>])
     \<lparr>numProc := [0, 0, 0, 0, 1, 0]\<rparr>"









text \<open>A RUNNABLE process at level 1 in slot 0 and one at level 0 in slot 1, with the
  counters that belong to them.\<close>

definition mixed_table :: ptable where
  "mixed_table =
     (boot_table [zero_proc\<lparr>state := RUNNABLE, pid := 3, level := 1\<rparr>,
                  zero_proc\<lparr>state := RUNNABLE, pid := 4\<rparr>])
     \<lparr>numProc := [1, 1, 0, 0, 0, 0]\<rparr>"

section \<open>Properties of the process table\<close>

subsection \<open>The table numProc after wakeup1\<close>

text \<open>
  C1. The claim: in every reachable state \<open>numProc[L]\<close>, for \<open>L\<close> from 0 to 3, is the
  number of RUNNABLE PCBs at level \<open>L\<close> whose monopolize flag is 0, and \<open>numProc[4]\<close> the
  number of monopolized ones, after every operation that changes a state, a level or the
  flag. \<open>wakeup1\<close> makes a sleeping process RUNNABLE and writes no counter: in the table
  with one process asleep the counters are right before the call and wrong after it
  (\<open>numProc[0]\<close> stays 0 with one eligible process at level 0).
\<close>

theorem wakeup1_breaks_numProc_inv:
  "numProc_inv sleeper_table
   \<and> \<not> numProc_inv (wakeup1 7 sleeper_table)
   \<and> numProc (wakeup1 7 sleeper_table) ! 0 = 0
   \<and> count_eligible 0 (procs (wakeup1 7 sleeper_table)) = 1"
  by (simp add: numProc_inv_def sleeper_table_def boot_table_def zero_proc_def
      count_eligible_def count_monopolized_def eligible_def wakeup1_def wakeup1_slot_def)

subsection \<open>kill and setpriority match by pid alone\<close>

lemma kill_loop_first:
  "i < length ps \<Longrightarrow> pid (ps ! i) = k \<Longrightarrow> \<forall>j<i. pid (ps ! j) \<noteq> k \<Longrightarrow>
   kill_loop k ps =
     (0, ps[i := (let p1 = (ps ! i)\<lparr>killed := 1\<rparr>
                  in if state p1 = SLEEPING then p1\<lparr>state := RUNNABLE\<rparr> else p1)])"
proof (induction ps arbitrary: i)
  case Nil
  then show ?case by simp
next
  case (Cons p ps)
  show ?case
  proof (cases i)
    case 0
    with Cons.prems show ?thesis by simp
  next
    case (Suc n)
    with Cons.prems have "pid p \<noteq> k" by auto
    moreover have "kill_loop k ps =
        (0, ps[n := (let p1 = (ps ! n)\<lparr>killed := 1\<rparr>
                     in if state p1 = SLEEPING then p1\<lparr>state := RUNNABLE\<rparr> else p1)])"
      using Cons.prems Suc by (intro Cons.IH) auto
    ultimately show ?thesis using Suc by simp
  qed
qed

lemma setpriority_loop_first:
  "i < length ps \<Longrightarrow> pid (ps ! i) = k \<Longrightarrow> \<forall>j<i. pid (ps ! j) \<noteq> k \<Longrightarrow>
   setpriority_loop k pr ps = (0, ps[i := (ps ! i)\<lparr>priority := pr\<rparr>])"
proof (induction ps arbitrary: i)
  case Nil
  then show ?case by simp
next
  case (Cons p ps)
  show ?case
  proof (cases i)
    case 0
    with Cons.prems show ?thesis by simp
  next
    case (Suc n)
    with Cons.prems have "pid p \<noteq> k" by auto
    moreover have "setpriority_loop k pr ps = (0, ps[n := (ps ! n)\<lparr>priority := pr\<rparr>])"
      using Cons.prems Suc by (intro Cons.IH) auto
    ultimately show ?thesis using Suc by auto
  qed
qed

text \<open>
  C10. In a table whose first slot with pid 0 is an UNUSED slot \<open>i\<close> (as \<open>wait\<close> leaves
  a reaped slot), \<open>kill(0)\<close> returns 0 and sets the killed flag of that slot, which stays
  UNUSED; \<open>setpriority(0, pr)\<close> with \<open>pr\<close> from 0 to 10 returns 0 and writes \<open>pr\<close>
  into the priority of that slot. Neither returns \<open>-1\<close>.
\<close>

theorem kill_setpriority_hit_unused_slot:
  assumes "i < length (procs pt)"
    and "pid (procs pt ! i) = 0"
    and "state (procs pt ! i) = UNUSED"
    and "\<forall>j<i. pid (procs pt ! j) \<noteq> 0"
    and "0 \<le> pr" and "pr \<le> 10"
  shows "kill 0 pt = (0, pt\<lparr>procs := (procs pt)[i := (procs pt ! i)\<lparr>killed := 1\<rparr>]\<rparr>)
       \<and> state (procs (snd (kill 0 pt)) ! i) = UNUSED
       \<and> killed (procs (snd (kill 0 pt)) ! i) = 1
       \<and> setpriority 0 pr pt
           = (0, pt\<lparr>procs := (procs pt)[i := (procs pt ! i)\<lparr>priority := pr\<rparr>]\<rparr>)
       \<and> state (procs (snd (setpriority 0 pr pt)) ! i) = UNUSED
       \<and> priority (procs (snd (setpriority 0 pr pt)) ! i) = pr"
  using assms kill_loop_first[of i "procs pt" 0]
    setpriority_loop_first[of i "procs pt" 0 pr]
  by (simp add: kill_def setpriority_def Let_def)

lemma reaped_table_eq:
  "fst (wait_pass 0 zombie_table) = Reaped 2
   \<and> reaped_table = boot_table [zero_proc\<lparr>state := RUNNING, pid := 1\<rparr>, zero_proc]"
  by (simp add: reaped_table_def wait_pass_def zombie_table_def boot_table_def
      zero_proc_def reap_def)

theorem kill_setpriority_hit_unused_slot_witness:
  "state (procs reaped_table ! 1) = UNUSED
   \<and> kill 0 reaped_table
       = (0, reaped_table\<lparr>procs := (procs reaped_table)[1 := (procs reaped_table ! 1)\<lparr>killed := 1\<rparr>]\<rparr>)
   \<and> killed (procs (snd (kill 0 reaped_table)) ! 1) = 1
   \<and> setpriority 0 5 reaped_table
       = (0, reaped_table\<lparr>procs := (procs reaped_table)[1 := (procs reaped_table ! 1)\<lparr>priority := 5\<rparr>]\<rparr>)
   \<and> priority (procs (snd (setpriority 0 5 reaped_table)) ! 1) = 5"
proof -
  have h: "1 < length (procs reaped_table)" "pid (procs reaped_table ! 1) = 0"
    "state (procs reaped_table ! 1) = UNUSED" "\<forall>j<1. pid (procs reaped_table ! j) \<noteq> 0"
    by (simp_all add: reaped_table_eq boot_table_def zero_proc_def)
  have r: "(0::int) \<le> 5" "(5::int) \<le> 10" by simp_all
  from kill_setpriority_hit_unused_slot[OF h r] h(3) show ?thesis by blast
qed

section \<open>Properties of the timer interrupt\<close>

subsection \<open>Aging of the running process\<close>

lemma smod2_odd: "0 \<le> (n::int) \<Longrightarrow> (n smod 2 = 1) = odd n"
  by (auto simp add: signed_modulo_int_def sgn_if odd_iff_mod_2_eq_one)

lemma int32_id: "- 2147483648 \<le> x \<Longrightarrow> x < 2147483648 \<Longrightarrow> int32 x = x"
  by (simp add: int32_def)

lemma aging_running:
  assumes "state p = RUNNING"
    and "- 2147483648 \<le> tick p" and "tick p < 2147483647"
    and "0 \<le> level p" and "level p \<le> 3"
    and "0 \<le> priority p" and "priority p < 2147483648"
  shows "aging p =
     (if monopolize p = 1 then p\<lparr>tick := 0\<rparr>
      else if tick p + 1 < 2 * level p + 2 then p\<lparr>tick := tick p + 1\<rparr>
      else if level p = 0 then
        (if pid p smod 2 = 1 then p\<lparr>level := 1, tick := 0\<rparr> else p\<lparr>level := 2, tick := 0\<rparr>)
      else if level p = 1 \<or> level p = 2 then p\<lparr>level := 3, tick := 0\<rparr>
      else
        p\<lparr>priority := (if priority p \<noteq> 0 then priority p - 1 else priority p), tick := 0\<rparr>)"
proof -
  have t: "int32 (tick p + 1) = tick p + 1" using assms(2,3) by (simp add: int32_id)
  have l: "level p = 0 \<or> level p = 1 \<or> level p = 2 \<or> level p = 3"
    using assms(4,5) by arith
  then have q: "int32 (int32 (2 * level p) + 2) = 2 * level p + 2"
    by (auto simp add: int32_def)
  have r: "priority p \<noteq> 0 \<Longrightarrow> int32 (priority p - 1) = priority p - 1"
    using assms(6,7) by (simp add: int32_id)
  show ?thesis
    using assms(1) l r by (auto simp add: aging_def Let_def t q)
qed

text \<open>
  At the greatest 32-bit value the increment wraps: the counter becomes \<open>-2^31\<close>, which
  is below every quantum, and the process stays at its level.
\<close>

lemma aging_tick_overflow:
  "procs (ptab (trap_timer 9 \<lparr>cproc = Some 0\<rparr> overflow_kernel)) ! 0
     = (procs (ptab overflow_kernel) ! 0)\<lparr>tick := - 2147483648\<rparr>"
  by (simp add: trap_timer_def Let_def myproc_def wakeup_def wakeup1_def wakeup1_slot_def
      aging_def int32_def overflow_kernel_def boot_table_def zero_proc_def)

text \<open>
  C2. A timer interrupt on CPU 0 that does not bring \<open>ticks\<close> to 100, with the current
  process \<open>p\<close> in slot \<open>i\<close> RUNNING (level within 0..3, pid and priority not negative,
  tick and priority 32-bit values, tick below \<open>2^31 - 1\<close> so that the increment does not
  wrap).
  If \<open>p\<close> is not monopolized its tick counter is incremented; when the incremented
  counter has reached \<open>2 * level + 2\<close> it is reset to 0 and \<open>p\<close> moves from level 0 to
  level 1 (odd pid) or level 2 (even pid), from level 1 or 2 to level 3, and at level 3
  stays there with its priority decremented if it is not 0, so never below 0; nothing
  else of \<open>p\<close> changes. If \<open>p\<close> is monopolized, only its tick counter is reset to 0.
\<close>

theorem trap_timer_aging:
  assumes t: "ticks k + 1 \<noteq> 100"
    and cur: "cproc c = Some i" and i: "i < length (procs (ptab k))"
    and run: "state (procs (ptab k) ! i) = RUNNING"
    and lv: "0 \<le> level (procs (ptab k) ! i)" "level (procs (ptab k) ! i) \<le> 3"
    and pd: "0 \<le> pid (procs (ptab k) ! i)"
    and pr: "0 \<le> priority (procs (ptab k) ! i)" "priority (procs (ptab k) ! i) < 2147483648"
    and tk: "- 2147483648 \<le> tick (procs (ptab k) ! i)" "tick (procs (ptab k) ! i) < 2147483647"
  shows "let p = procs (ptab k) ! i; p' = procs (ptab (trap_timer tchan c k)) ! i in
      ticks (trap_timer tchan c k) = ticks k + 1 \<and>
      (monopolize p = 1 \<longrightarrow> p' = p\<lparr>tick := 0\<rparr>) \<and>
      (monopolize p = 0 \<longrightarrow>
         (tick p + 1 < 2 * level p + 2 \<longrightarrow> p' = p\<lparr>tick := tick p + 1\<rparr>) \<and>
         (tick p + 1 \<ge> 2 * level p + 2 \<longrightarrow>
            (level p = 0 \<and> odd (pid p) \<longrightarrow> p' = p\<lparr>level := 1, tick := 0\<rparr>) \<and>
            (level p = 0 \<and> even (pid p) \<longrightarrow> p' = p\<lparr>level := 2, tick := 0\<rparr>) \<and>
            (level p = 1 \<or> level p = 2 \<longrightarrow> p' = p\<lparr>level := 3, tick := 0\<rparr>) \<and>
            (level p = 3 \<and> priority p \<noteq> 0 \<longrightarrow>
               p' = p\<lparr>priority := priority p - 1, tick := 0\<rparr>) \<and>
            (level p = 3 \<and> priority p = 0 \<longrightarrow> p' = p\<lparr>tick := 0\<rparr>) \<and>
            tick p' = 0 \<and> 0 \<le> priority p'))"
proof -
  let ?p = "procs (ptab k) ! i"
  let ?w = "wakeup tchan (ptab k)"
  have w: "procs ?w ! i = ?p" "length (procs ?w) = length (procs (ptab k))"
    using i run by (simp_all add: wakeup_def wakeup1_def wakeup1_slot_def)
  have tt: "trap_timer tchan c k
      = \<lparr>ticks = ticks k + 1, ptab = ?w\<lparr>procs := (procs ?w)[i := aging ?p]\<rparr>\<rparr>"
    using t cur by (simp add: trap_timer_def Let_def myproc_def w)
  have p': "procs (ptab (trap_timer tchan c k)) ! i = aging ?p"
    using i by (simp add: tt w)
  have l: "level ?p = 0 \<or> level ?p = 1 \<or> level ?p = 2 \<or> level ?p = 3"
    using lv by arith
  show ?thesis
    unfolding Let_def p' aging_running[OF run tk lv pr] using l pr smod2_odd[OF pd]
    by (auto simp add: tt)
qed

theorem trap_timer_aging_witness:
  "ticks aging_kernel + 1 \<noteq> 100
   \<and> state (procs (ptab aging_kernel) ! 0) = RUNNING
   \<and> level (procs (ptab aging_kernel) ! 0) = 0
   \<and> even (pid (procs (ptab aging_kernel) ! 0))
   \<and> ticks (trap_timer 9 \<lparr>cproc = Some 0\<rparr> aging_kernel) = 6
   \<and> procs (ptab (trap_timer 9 \<lparr>cproc = Some 0\<rparr> aging_kernel)) ! 0
       = (procs (ptab aging_kernel) ! 0)\<lparr>level := 2, tick := 0\<rparr>"
proof -
  let ?p = "procs (ptab aging_kernel) ! 0"
  have h: "ticks aging_kernel + 1 \<noteq> 100" "cproc \<lparr>cproc = Some 0\<rparr> = Some 0"
    "0 < length (procs (ptab aging_kernel))" "state ?p = RUNNING"
    "0 \<le> level ?p" "level ?p \<le> 3" "0 \<le> pid ?p" "0 \<le> priority ?p"
    "priority ?p < 2147483648" "- 2147483648 \<le> tick ?p" "tick ?p < 2147483647"
    by (simp_all add: aging_kernel_def boot_table_def zero_proc_def)
  have f: "monopolize ?p = 0" "tick ?p + 1 \<ge> 2 * level ?p + 2" "level ?p = 0" "even (pid ?p)"
    "ticks aging_kernel + 1 = 6"
    by (simp_all add: aging_kernel_def boot_table_def zero_proc_def)
  from trap_timer_aging[OF h, of 9] f h(1) h(4) show ?thesis
    unfolding Let_def by metis
qed

subsection \<open>Priority boosting\<close>










section \<open>Properties of the scheduler and of monopolization\<close>

subsection \<open>The level-3 branch\<close>









text \<open>
  The last branch of the scan has no condition of its own. It also takes a slot at
  level 1 while the level-0 counter is not 0: that slot is dispatched and \<open>numProc[3]\<close>
  decremented.
\<close>

lemma scheduler_else_branch_unguarded:
  "numProc_inv mixed_table
   \<and> scheduler_slot swtch 0 \<lparr>cproc = None\<rparr> mixed_table
       = Inr (Some L3, \<lparr>cproc = Some 0\<rparr>,
              mixed_table\<lparr>procs := (procs mixed_table)[0 := (procs mixed_table ! 0)\<lparr>state := RUNNING\<rparr>],
                          numProc := [1, 1, 0, - 1, 0, 0]\<rparr>)"
proof -
  have "l3_select (procs mixed_table) 0 = 0" by code_simp
  then show ?thesis
    by (simp add: scheduler_slot_def dispatch_def Let_def mixed_table_def boot_table_def
        zero_proc_def numProc_inv_def count_eligible_def count_monopolized_def eligible_def)
qed

text \<open>\<open>yield\<close> counts the process it makes RUNNABLE.\<close>

lemma yield_counts:
  assumes "cproc c = Some i" and "0 \<le> level (procs pt ! i)" and "level (procs pt ! i) < 6"
    and "length (numProc pt) = 6" and "i < length (procs pt)"
  shows "yield c pt =
     Inr (pt\<lparr>procs := (procs pt)[i := (procs pt ! i)\<lparr>state := RUNNABLE\<rparr>],
             numProc := (numProc pt)[nat (level (procs pt ! i))
                           := numProc pt ! nat (level (procs pt ! i)) + 1]\<rparr>)"
  using assms by (simp add: yield_def myproc_def numProc_add_def Let_def)



subsection \<open>setmonopoly\<close>






subsection \<open>The exclusive dispatch path\<close>

text \<open>
  C4. The claim: the dispatch routine of a monopolized process sets it RUNNING, hands
  off, and on return clears the CPU's pointer and calls \<open>unmonopolize\<close>, after which the
  process is scheduled by level again and does not go through the exclusive path until
  it is marked again. \<open>monopolize\<close> clears \<open>c->proc\<close> and then reads
  \<open>myproc()->monopolize\<close>, that is, through the null pointer: whatever the table, the
  routine faults before any hand-off, and so does the scheduler on the RUNNABLE
  monopolized process of \<open>mono_table\<close>. \<open>unmonopolize\<close>, called with that process as
  current process, moves the count and leaves the monopolize flag at 1.
\<close>

theorem monopolize_fn_null_deref:
  "monopolize_fn swtch c pt = Inl NullDeref
   \<and> scheduler_slot swtch 1 \<lparr>cproc = None\<rparr> mono_table = Inl NullDeref
   \<and> unmonopolize \<lparr>cproc = Some 1\<rparr> mono_table
       = Inr (mono_table\<lparr>numProc := [1, 0, 0, 0, 0, 0]\<rparr>)
   \<and> monopolize (procs (mono_table\<lparr>numProc := [1, 0, 0, 0, 0, 0]\<rparr>) ! 1) = 1"
  by (simp add: monopolize_fn_def myproc_def scheduler_slot_def unmonopolize_def
      mono_table_def boot_table_def zero_proc_def Let_def)

section \<open>Properties of the page allocator\<close>








subsection \<open>Reference counting of one frame\<close>



subsection \<open>kfree at count zero\<close>




subsection \<open>Reference counts over sequences of calls\<close>











end
